theory Spec2Isabelle
  imports Main "HOL-Library.Sublist"
begin

section \<open>String operations used by the middleware\<close>

text \<open>
  Paths, cookie values and header values are modelled as \<open>string\<close> (lists of characters,
  one character per code unit, so that \<open>length\<close> is the host language's \<open>.length\<close>).
  The middleware only uses \<open>startsWith\<close>, \<open>endsWith\<close>, \<open>includes\<close>, \<open>split\<close> on a one-character
  separator, \<open>length\<close>, equality and concatenation; each is written out below.
\<close>

definition startsWith :: "string \<Rightarrow> string \<Rightarrow> bool" where
  "startsWith s p = prefix p s"

definition endsWith :: "string \<Rightarrow> string \<Rightarrow> bool" where
  "endsWith s p = suffix p s"

definition includesStr :: "string \<Rightarrow> string \<Rightarrow> bool" where
  "includesStr s p = sublist p s"

text \<open>\<open>s.split(c)\<close> for a one-character separator: \<open>''''.split(c)\<close> is \<open>['''']\<close>, and a
  separator at the end leaves an empty last piece.\<close>

fun splitStr :: "char \<Rightarrow> string \<Rightarrow> string list" where
  "splitStr c [] = [[]]"
| "splitStr c (x # xs) =
     (if x = c then [] # splitStr c xs
      else (case splitStr c xs of [] \<Rightarrow> [[x]] | w # ws \<Rightarrow> (x # w) # ws))"

section \<open>Requests, URLs and responses\<close>

record url =
  origin :: string
  pathname :: string
  searchParams :: "(string \<times> string) list"

text \<open>\<open>url.searchParams.set(k, v)\<close>: the first pair named \<open>k\<close> takes the value, later pairs
  named \<open>k\<close> are dropped, and the pair is appended when there is none.\<close>

fun searchParams_set :: "string \<Rightarrow> string \<Rightarrow> (string \<times> string) list \<Rightarrow> (string \<times> string) list" where
  "searchParams_set k v [] = [(k, v)]"
| "searchParams_set k v ((k', v') # ps) =
     (if k' = k then (k, v) # filter (\<lambda>kv. fst kv \<noteq> k) ps
      else (k', v') # searchParams_set k v ps)"

record request =
  nextUrl :: url
  cookies :: "string \<rightharpoonup> string"
  referer :: "string option"

text \<open>An entry of \<open>res.cookies\<close>: \<open>expires\<close> in milliseconds since the epoch, so that
  \<open>new Date(0)\<close> is \<open>Some 0\<close>.\<close>

record SetCookie =
  c_name :: string
  c_value :: string
  c_expires :: "int option"
  c_path :: "string option"

text \<open>The provider's user and session records. The middleware only tests a session for
  presence (and reads \<open>session.user.id\<close> for a log line); the client cache also reads
  \<open>session.user\<close> and builds a stand-in session from a user.\<close>

record User =
  user_id :: string
  user_email :: string

record Session =
  session_user :: User
  access_token :: string
  refresh_token :: string
  expires_in :: nat
  token_type :: string

text \<open>
  How the race of \<open>supabase.auth.getSession()\<close> against the 5000 ms timer ends: the timer
  rejects first (\<open>TimedOut\<close>), the lookup rejects (\<open>Rejected\<close>), it resolves to a value that
  cannot be destructured as \<open>{ data: { session }, error }\<close> (\<open>Malformed\<close>), or it resolves
  to a session (or none) and an error (or none).
\<close>

datatype lookup = TimedOut | Rejected | Malformed | Settled "Session option" "string option"

text \<open>
  The provider client is given an adapter that writes to \<open>res.cookies\<close>. What the client
  writes through it is not decided by the middleware: \<open>written\<close> is the content of \<open>res.cookies\<close>
  at the moment the race has ended (empty when the client wrote nothing).
\<close>

record lookup_env =
  outcome :: lookup
  written :: "string \<rightharpoonup> SetCookie"

text \<open>\<open>Next cs\<close> is the pass-through response \<open>res\<close> with \<open>res.cookies = cs\<close>;
  \<open>Redirect u status\<close> is a fresh \<open>NextResponse.redirect(u, status)\<close> (default status 307),
  which carries none of the cookies of \<open>res\<close>.\<close>

datatype response = Next "string \<rightharpoonup> SetCookie" | Redirect url nat

section \<open>The middleware\<close>

definition excluded :: "string \<Rightarrow> bool" where
  "excluded p =
     (startsWith p ''/_next'' \<or> startsWith p ''/api'' \<or> includesStr p ''.'' \<or>
      startsWith p ''/favicon.ico'')"

definition loopGuard :: "string option \<Rightarrow> string \<Rightarrow> bool" where
  "loopGuard r p =
     (case r of None \<Rightarrow> False
      | Some ref \<Rightarrow> ref \<noteq> [] \<and> includesStr p ''/auth/login'' \<and> includesStr ref ''/auth/login'')"

definition validLocales :: "string list" where
  "validLocales = [''en'', ''ar'']"

definition pathnameIsMissingLocale :: "string \<Rightarrow> bool" where
  "pathnameIsMissingLocale p =
     list_all (\<lambda>locale. \<not> startsWith p (''/'' @ locale @ ''/'') \<and> p \<noteq> ''/'' @ locale)
       [''en'', ''ar'']"

text \<open>\<open>pathname.split('/')[1]\<close>, \<open>None\<close> where the index is out of range.\<close>

definition pathLocale :: "string \<Rightarrow> string option" where
  "pathLocale p = (case splitStr CHR ''/'' p of _ # l # _ \<Rightarrow> Some l | _ \<Rightarrow> None)"

definition currentLocale :: "string \<Rightarrow> string" where
  "currentLocale p =
     (case pathLocale p of
        Some l \<Rightarrow> if l \<in> set validLocales then l else ''en''
      | None \<Rightarrow> ''en'')"

definition publicRoutes :: "string \<Rightarrow> string list" where
  "publicRoutes loc =
     [''/'' @ loc @ ''/auth/login'',
      ''/'' @ loc @ ''/auth/signup'',
      ''/'' @ loc @ ''/auth/forgot-password'',
      ''/'' @ loc @ ''/auth/reset-password'',
      ''/'' @ loc @ ''/auth/callback'',
      ''/'' @ loc @ ''/auth/bypass'',
      ''/'' @ loc @ ''/demo'',
      ''/'' @ loc @ ''/onboarding'',
      ''/'' @ loc @ ''/test-auth'',
      ''/'' @ loc @ ''/test-auth-system'',
      ''/'' @ loc @ ''/test-user-signup'',
      ''/'' @ loc @ ''/debug-auth'',
      ''/'' @ loc @ ''/debug-promoter'',
      ''/'' @ loc @ ''/dashboard/debug'',
      ''/'' @ loc @ ''/test-dashboard'',
      ''/'' @ loc @ ''/debug-redirect'',
      ''/'' @ loc @ ''/test-cookie-fix'',
      ''/'' @ loc @ ''/debug-login-flow'',
      ''/'' @ loc @ ''/test-client-session'',
      ''/test-login'']"

definition isPublicRoute :: "string \<Rightarrow> string \<Rightarrow> bool" where
  "isPublicRoute loc p = list_ex (\<lambda>route. startsWith p route) (publicRoutes loc)"

definition isTruncated :: "string option \<Rightarrow> bool" where
  "isTruncated cookie =
     (case cookie of
        None \<Rightarrow> False
      | Some v \<Rightarrow>
          if v = [] then False
          else if endsWith v ''...'' then True
          else if length v < 10 then True
          else if length (splitStr CHR ''.'' v) \<noteq> 3 then True
          else False)"

definition clearedCookie :: "string \<Rightarrow> SetCookie" where
  "clearedCookie n = \<lparr>c_name = n, c_value = [], c_expires = Some 0, c_path = Some ''/''\<rparr>"

definition loginRedirect :: "request \<Rightarrow> string \<Rightarrow> response" where
  "loginRedirect req loc =
     Redirect ((nextUrl req)
       \<lparr>pathname := ''/'' @ loc @ ''/auth/login'',
        searchParams := searchParams_set ''redirect'' (pathname (nextUrl req))
                          (searchParams (nextUrl req))\<rparr>) 307"

text \<open>
  The cookie check (the block that starts at \<open>const authToken0\<close>): it returns \<open>res.cookies\<close>
  as the block leaves it and the response the block returns, if it returns one.
\<close>

definition cookieCheck ::
  "request \<Rightarrow> Session option \<Rightarrow> bool \<Rightarrow> string \<Rightarrow> (string \<rightharpoonup> SetCookie) \<Rightarrow>
   (string \<rightharpoonup> SetCookie) \<times> response option" where
  "cookieCheck req session isPublic loc res =
     (if isTruncated (cookies req ''sb-auth-token.0'') \<or>
         isTruncated (cookies req ''sb-auth-token.1'')
      then
        (if session = None then
           (let res' = res(''sb-auth-token.0'' \<mapsto> clearedCookie ''sb-auth-token.0'',
                           ''sb-auth-token.1'' \<mapsto> clearedCookie ''sb-auth-token.1'')
            in if \<not> isPublic then (res', Some (loginRedirect req loc)) else (res', None))
         else (res, None))
      else (res, None))"

definition afterLookup :: "request \<Rightarrow> Session option \<Rightarrow> (string \<rightharpoonup> SetCookie) \<Rightarrow> response" where
  "afterLookup req session res =
     (let p = pathname (nextUrl req) in
      if pathnameIsMissingLocale p then
        Redirect ((nextUrl req)\<lparr>pathname := ''/'' @ ''en'' @ p\<rparr>) 307
      else
        let loc = currentLocale p;
            isPublic = isPublicRoute loc p
        in
          if session = None \<and> \<not> isPublic then
            (if includesStr p ''/auth/login'' then Next res else loginRedirect req loc)
          else if session \<noteq> None \<and> startsWith p (''/'' @ loc @ ''/auth/login'') then
            Redirect ((nextUrl req)\<lparr>pathname := ''/'' @ loc @ ''/dashboard''\<rparr>) 302
          else
            (case cookieCheck req session isPublic loc res of
               (res', Some r) \<Rightarrow> r
             | (res', None) \<Rightarrow>
                 if p = ''/'' then
                   Redirect ((nextUrl req)
                     \<lparr>pathname := (if session \<noteq> None then ''/'' @ loc @ ''/dashboard''
                                    else ''/'' @ loc @ ''/auth/login'')\<rparr>) 307
                 else Next res'))"

text \<open>
  \<open>middleware\<close>: the early return on excluded paths, the referer loop guard, the session
  lookup raced against the timer (every rejection inside the \<open>try\<close> block ends in the
  \<open>catch\<close>, which returns \<open>res\<close>), the error check, and the rest of the chain.
\<close>

definition middleware :: "lookup_env \<Rightarrow> request \<Rightarrow> response" where
  "middleware env req =
     (let p = pathname (nextUrl req) in
      if excluded p then Next Map.empty
      else if loopGuard (referer req) p then Next Map.empty
      else
        (case outcome env of
           TimedOut \<Rightarrow> Next (written env)
         | Rejected \<Rightarrow> Next (written env)
         | Malformed \<Rightarrow> Next (written env)
         | Settled session sessionError \<Rightarrow>
             if sessionError \<noteq> None then Next (written env)
             else afterLookup req session (written env)))"

section \<open>The client auth state cache\<close>

record Profile =
  profile_id :: string

record AuthState =
  user :: "User option"
  session :: "Session option"
  loading :: bool
  mounted :: bool
  profile :: "Profile option"
  roles :: "string list"
  profileNotFound :: bool

text \<open>
  The service object: whether \<open>supabaseClient\<close> is non-null, the cached state, the listener
  set in insertion order (the order in which \<open>Set.forEach\<close> visits it), and \<open>delivered\<close>,
  the log of listener invocations (listener, state passed), oldest first. Listeners are
  observers: they neither throw nor call back into the service.
\<close>

record AuthService =
  supabaseClient :: bool
  authState :: AuthState
  listeners :: "nat list"
  delivered :: "(nat \<times> AuthState) list"

text \<open>How the awaited calls end. A rejection and a resolved value that cannot be
  destructured both land in the enclosing \<open>catch\<close>, so each is one constructor.\<close>

datatype getSession_outcome = GetSessionThrows | GetSessionData "Session option"

datatype refreshSession_outcome = RefreshThrows | RefreshData "Session option" "string option"

record CheckSessionBody =
  cs_success :: bool
  cs_hasSession :: bool
  cs_user :: "User option"

text \<open>\<open>CheckThrows\<close>: \<open>fetch\<close> rejects, the body is not JSON, or the body is \<open>null\<close> (reading
  \<open>data.success\<close> then throws).\<close>

datatype checkSession_outcome = CheckThrows | CheckData CheckSessionBody

record LogoutBody =
  lo_success :: bool
  lo_error :: "string option"

text \<open>\<open>LogoutThrows\<close>: \<open>fetch\<close> rejects, the body is not JSON, or the body is \<open>null\<close>;
  \<open>LogoutResponse ok body\<close> otherwise.\<close>

datatype logout_outcome = LogoutThrows | LogoutResponse bool LogoutBody

datatype signIn_outcome = SignInThrows | SignInData "User option" "Session option" "string option"

text \<open>The world outside the service: whether \<open>window\<close> is defined, whether \<open>createClient()\<close>
  (a module that is not part of the sources at hand) returns a client, and how each remote
  call ends.\<close>

record auth_env =
  windowDefined :: bool
  createClient :: bool
  getSession :: getSession_outcome
  refreshSession :: refreshSession_outcome
  checkSession :: checkSession_outcome
  logout :: logout_outcome
  signInWithPassword :: signIn_outcome

record AuthResult =
  success :: bool
  error :: "string option"

definition initialAuthState :: AuthState where
  "initialAuthState =
     \<lparr>user = None, session = None, loading = True, mounted = False, profile = None,
      roles = [], profileNotFound = False\<rparr>"

text \<open>The instance that \<open>getInstance()\<close> creates on first use.\<close>

definition newAuthService :: AuthService where
  "newAuthService =
     \<lparr>supabaseClient = False, authState = initialAuthState, listeners = [], delivered = []\<rparr>"

definition ensureClient :: "auth_env \<Rightarrow> AuthService \<Rightarrow> AuthService" where
  "ensureClient env svc =
     (if \<not> supabaseClient svc \<and> windowDefined env
      then svc\<lparr>supabaseClient := createClient env\<rparr> else svc)"

definition unsubscribe :: "nat \<Rightarrow> AuthService \<Rightarrow> AuthService" where
  "unsubscribe listener svc = svc\<lparr>listeners := removeAll listener (listeners svc)\<rparr>"

text \<open>\<open>subscribe\<close> returns the new service state and the closure it hands back.\<close>

definition subscribe :: "nat \<Rightarrow> AuthService \<Rightarrow> AuthService \<times> (AuthService \<Rightarrow> AuthService)" where
  "subscribe listener svc =
     (svc\<lparr>listeners := (if listener \<in> set (listeners svc) then listeners svc
                         else listeners svc @ [listener]),
          delivered := delivered svc @ [(listener, authState svc)]\<rparr>,
      unsubscribe listener)"

definition notifyListeners :: "AuthService \<Rightarrow> AuthService" where
  "notifyListeners svc =
     svc\<lparr>delivered := delivered svc @ map (\<lambda>l. (l, authState svc)) (listeners svc)\<rparr>"

text \<open>\<open>updateState(updates)\<close>: the spread \<open>{ ...authState, ...updates }\<close> is the record update
  \<open>f\<close>, followed by the broadcast.\<close>

definition updateState :: "(AuthState \<Rightarrow> AuthState) \<Rightarrow> AuthService \<Rightarrow> AuthService" where
  "updateState f svc = notifyListeners (svc\<lparr>authState := f (authState svc)\<rparr>)"

definition clearSession :: "AuthState \<Rightarrow> AuthState" where
  "clearSession a = a\<lparr>session := None, user := None, profile := None, roles := []\<rparr>"

definition mockSession :: "User \<Rightarrow> Session" where
  "mockSession u =
     \<lparr>session_user = u, access_token = ''manual-check'', refresh_token = ''manual-check'',
      expires_in = 3600, token_type = ''bearer''\<rparr>"

text \<open>The body of \<open>if (!currentSession) { ... }\<close> in \<open>initializeAuth\<close>.\<close>

definition refreshFlow :: "auth_env \<Rightarrow> AuthService \<Rightarrow> AuthService" where
  "refreshFlow env svc =
     (case refreshSession env of
        RefreshThrows \<Rightarrow> updateState clearSession svc
      | RefreshData refreshedSession refreshError \<Rightarrow>
          if refreshError \<noteq> None then
            (case checkSession env of
               CheckThrows \<Rightarrow> updateState clearSession svc
             | CheckData d \<Rightarrow>
                 (case cs_user d of
                    Some u \<Rightarrow>
                      if cs_success d \<and> cs_hasSession d
                      then updateState (\<lambda>a. a\<lparr>session := Some (mockSession u), user := Some u\<rparr>) svc
                      else updateState clearSession svc
                  | None \<Rightarrow> updateState clearSession svc))
          else
            (case refreshedSession of
               Some r \<Rightarrow> updateState (\<lambda>a. a\<lparr>session := Some r, user := Some (session_user r)\<rparr>) svc
             | None \<Rightarrow> updateState clearSession svc))"

text \<open>
  \<open>initializeAuth\<close> returns the service state when its promise settles, and the user id for
  which the profile and role load was started in the background (\<open>None\<close> when none was).
\<close>

definition initializeAuth :: "auth_env \<Rightarrow> AuthService \<Rightarrow> AuthService \<times> string option" where
  "initializeAuth env svc =
     (let svc1 = ensureClient env svc in
      if \<not> supabaseClient svc1 then
        (updateState (\<lambda>a. a\<lparr>loading := False, mounted := True\<rparr>) svc1, None)
      else
        (case getSession env of
           GetSessionThrows \<Rightarrow>
             (updateState (\<lambda>a. a\<lparr>profile := None, roles := [], loading := False\<rparr>) svc1, None)
         | GetSessionData currentSession \<Rightarrow>
             let svc2 = updateState
                          (\<lambda>a. a\<lparr>session := currentSession,
                                  user := map_option session_user currentSession,
                                  loading := False, mounted := True\<rparr>) svc1;
                 svc3 = (if currentSession = None then refreshFlow env svc2 else svc2);
                 userId = (case currentSession of None \<Rightarrow> []
                           | Some s \<Rightarrow> user_id (session_user s))
             in if userId \<noteq> [] then (svc3, Some userId)
                else (updateState (\<lambda>a. a\<lparr>profile := None, roles := []\<rparr>) svc3, None)))"

definition signIn :: "auth_env \<Rightarrow> AuthService \<Rightarrow> AuthResult \<times> AuthService" where
  "signIn env svc =
     (let svc1 = ensureClient env svc in
      if \<not> supabaseClient svc1 then
        (\<lparr>success = False, error = Some ''No Supabase client available''\<rparr>, svc1)
      else
        (case signInWithPassword env of
           SignInThrows \<Rightarrow>
             (\<lparr>success = False, error = Some ''Internal error during sign in''\<rparr>, svc1)
         | SignInData u s err \<Rightarrow>
             (case err of
                Some msg \<Rightarrow> (\<lparr>success = False, error = Some msg\<rparr>, svc1)
              | None \<Rightarrow>
                  (case u of
                     Some usr \<Rightarrow>
                       (\<lparr>success = True, error = None\<rparr>,
                        updateState (\<lambda>a. a\<lparr>user := Some usr, session := s\<rparr>) svc1)
                   | None \<Rightarrow>
                       (\<lparr>success = False, error = Some ''No user returned from sign in''\<rparr>,
                        svc1)))))"

definition signOut :: "auth_env \<Rightarrow> AuthService \<Rightarrow> AuthResult \<times> AuthService" where
  "signOut env svc =
     (case logout env of
        LogoutThrows \<Rightarrow>
          (\<lparr>success = False, error = Some ''Internal error during sign out''\<rparr>, svc)
      | LogoutResponse ok d \<Rightarrow>
          if \<not> ok \<or> \<not> lo_success d then
            (\<lparr>success = False,
              error = Some (case lo_error d of
                              None \<Rightarrow> ''Failed to logout''
                            | Some e \<Rightarrow> if e = [] then ''Failed to logout'' else e)\<rparr>, svc)
          else
            (\<lparr>success = True, error = None\<rparr>,
             updateState (\<lambda>a. a\<lparr>user := None, session := None, profile := None, roles := []\<rparr>)
               svc))"

section \<open>Concrete requests and environments\<close>

definition exampleUrl :: "string \<Rightarrow> url" where
  "exampleUrl p =
     \<lparr>origin = ''https://app.example'', pathname = p, searchParams = [(''tab'', ''2'')]\<rparr>"

definition exampleRequest :: "string \<Rightarrow> request" where
  "exampleRequest p = \<lparr>nextUrl = exampleUrl p, cookies = Map.empty, referer = None\<rparr>"

definition shortCookieRequest :: "string \<Rightarrow> request" where
  "shortCookieRequest p =
     \<lparr>nextUrl = exampleUrl p, cookies = [''sb-auth-token.0'' \<mapsto> ''abcde''], referer = None\<rparr>"

definition emptyCookieRequest :: "string \<Rightarrow> request" where
  "emptyCookieRequest p =
     \<lparr>nextUrl = exampleUrl p, cookies = [''sb-auth-token.1'' \<mapsto> ''''], referer = None\<rparr>"

definition exampleUser :: User where
  "exampleUser = \<lparr>user_id = ''u-1'', user_email = ''a@b.c''\<rparr>"

definition exampleSession :: Session where
  "exampleSession =
     \<lparr>session_user = exampleUser, access_token = ''at'', refresh_token = ''rt'',
      expires_in = 3600, token_type = ''bearer''\<rparr>"

definition noSessionEnv :: lookup_env where
  "noSessionEnv = \<lparr>outcome = Settled None None, written = Map.empty\<rparr>"

definition sessionEnv :: lookup_env where
  "sessionEnv = \<lparr>outcome = Settled (Some exampleSession) None, written = Map.empty\<rparr>"

definition timeoutEnv :: lookup_env where
  "timeoutEnv = \<lparr>outcome = TimedOut, written = Map.empty\<rparr>"

section \<open>Concrete runs of the client cache\<close>

text \<open>A browser in which the sign-in call succeeds.\<close>

definition signInOkEnv :: auth_env where
  "signInOkEnv =
     \<lparr>windowDefined = True, createClient = True, getSession = GetSessionData None,
      refreshSession = RefreshData None None, checkSession = CheckThrows,
      logout = LogoutThrows,
      signInWithPassword = SignInData (Some exampleUser) (Some exampleSession) None\<rparr>"

text \<open>A browser in which every session lookup throws.\<close>

definition unreachableEnv :: auth_env where
  "unreachableEnv =
     \<lparr>windowDefined = True, createClient = True, getSession = GetSessionThrows,
      refreshSession = RefreshThrows, checkSession = CheckThrows,
      logout = LogoutThrows, signInWithPassword = SignInThrows\<rparr>"

text \<open>A browser in which \<open>getSession\<close> resolves without a session, the refresh reports an
  error and the check-session endpoint answers that there is no session.\<close>

definition nothingEnv :: auth_env where
  "nothingEnv =
     \<lparr>windowDefined = True, createClient = True, getSession = GetSessionData None,
      refreshSession = RefreshData None (Some ''Auth session missing!''),
      checkSession = CheckData \<lparr>cs_success = False, cs_hasSession = False, cs_user = None\<rparr>,
      logout = LogoutThrows, signInWithPassword = SignInThrows\<rparr>"

text \<open>The logout endpoint answers 500 with \<open>{ success: false, error: ''boom'' }\<close>, and
  answers 200 with \<open>{ success: true }\<close>.\<close>

definition logoutFailsEnv :: auth_env where
  "logoutFailsEnv =
     \<lparr>windowDefined = True, createClient = True, getSession = GetSessionData None,
      refreshSession = RefreshData None None, checkSession = CheckThrows,
      logout = LogoutResponse False \<lparr>lo_success = False, lo_error = Some ''boom''\<rparr>,
      signInWithPassword = SignInThrows\<rparr>"

definition logoutOkEnv :: auth_env where
  "logoutOkEnv =
     \<lparr>windowDefined = True, createClient = True, getSession = GetSessionData None,
      refreshSession = RefreshData None None, checkSession = CheckThrows,
      logout = LogoutResponse True \<lparr>lo_success = True, lo_error = None\<rparr>,
      signInWithPassword = SignInThrows\<rparr>"

text \<open>A cache with one subscriber (listener 7) after a successful sign-in.\<close>

definition signedInService :: AuthService where
  "signedInService = snd (signIn signInOkEnv (fst (subscribe 7 newAuthService)))"

section \<open>Facts about the string operations\<close>

lemmas str_eval = startsWith_def endsWith_def includesStr_def sublist_Cons_right

lemma splitStr_not_Nil: "splitStr c xs \<noteq> []"
  by (induction xs) (auto split: list.splits)

lemma startsWith_trans: "startsWith p b \<Longrightarrow> startsWith b a \<Longrightarrow> startsWith p a"
  unfolding startsWith_def by (rule prefix_order.trans)

section \<open>Locale of a path\<close>

lemma missing_unfold:
  "pathnameIsMissingLocale p \<longleftrightarrow>
     \<not> startsWith p ''/en/'' \<and> p \<noteq> ''/en'' \<and> \<not> startsWith p ''/ar/'' \<and> p \<noteq> ''/ar''"
  by (simp add: pathnameIsMissingLocale_def)

lemma validLocales_cases: "loc \<in> set validLocales \<longleftrightarrow> loc = ''en'' \<or> loc = ''ar''"
  by (simp add: validLocales_def)

lemma hasLocaleI:
  assumes "loc \<in> set validLocales"
    and "p = ''/'' @ loc \<or> startsWith p (''/'' @ loc @ ''/'')"
  shows "\<not> pathnameIsMissingLocale p"
proof -
  from assms(1) consider "loc = ''en''" | "loc = ''ar''"
    unfolding validLocales_cases by blast
  then show ?thesis
  proof cases
    case 1
    with assms(2) have "p = ''/en'' \<or> startsWith p ''/en/''" by simp
    then show ?thesis unfolding missing_unfold by blast
  next
    case 2
    with assms(2) have "p = ''/ar'' \<or> startsWith p ''/ar/''" by simp
    then show ?thesis unfolding missing_unfold by blast
  qed
qed

lemma pathLocale_exact: "loc \<in> set validLocales \<Longrightarrow> pathLocale (''/'' @ loc) = Some loc"
  by (auto simp: validLocales_def pathLocale_def)

lemma pathLocale_slash:
  "loc \<in> set validLocales \<Longrightarrow> pathLocale (''/'' @ loc @ ''/'' @ rest) = Some loc"
  using splitStr_not_Nil [of "CHR ''/''" rest]
  by (cases "splitStr CHR ''/'' rest") (auto simp: validLocales_def pathLocale_def)

lemma currentLocale_of_prefix:
  assumes "loc \<in> set validLocales"
    and "p = ''/'' @ loc \<or> startsWith p (''/'' @ loc @ ''/'')"
  shows "currentLocale p = loc"
proof -
  from assms(2) obtain rest where "p = ''/'' @ loc \<or> p = ''/'' @ loc @ ''/'' @ rest"
    by (auto simp: startsWith_def prefix_def)
  then have "pathLocale p = Some loc"
    using assms(1) pathLocale_exact pathLocale_slash by blast
  then show ?thesis using assms(1) by (simp add: currentLocale_def)
qed

lemma login_route_has_locale:
  assumes "startsWith p (''/'' @ loc @ ''/auth/login'')"
  shows "startsWith p (''/'' @ loc @ ''/'')"
proof -
  have "startsWith (''/'' @ loc @ ''/auth/login'') (''/'' @ loc @ ''/'')"
    by (simp add: startsWith_def)
  with assms show ?thesis by (rule startsWith_trans)
qed

section \<open>The steps of the middleware\<close>


lemma middleware_settled:
  assumes "\<not> excluded (pathname (nextUrl req))"
    and "\<not> loopGuard (referer req) (pathname (nextUrl req))"
    and "outcome env = Settled s None"
  shows "middleware env req = afterLookup req s (written env)"
  using assms by (simp add: middleware_def)

lemma afterLookup_missing:
  assumes "pathnameIsMissingLocale (pathname (nextUrl req))"
  shows "afterLookup req sess res =
           Redirect ((nextUrl req)\<lparr>pathname := ''/en'' @ pathname (nextUrl req)\<rparr>) 307"
  using assms by (simp add: afterLookup_def)

lemma afterLookup_no_session_protected:
  assumes "\<not> pathnameIsMissingLocale (pathname (nextUrl req))"
    and "\<not> isPublicRoute (currentLocale (pathname (nextUrl req))) (pathname (nextUrl req))"
  shows "afterLookup req None res =
           (if includesStr (pathname (nextUrl req)) ''/auth/login'' then Next res
            else loginRedirect req (currentLocale (pathname (nextUrl req))))"
  using assms by (simp add: afterLookup_def)

lemma afterLookup_session_login:
  assumes "\<not> pathnameIsMissingLocale (pathname (nextUrl req))"
    and "startsWith (pathname (nextUrl req))
           (''/'' @ currentLocale (pathname (nextUrl req)) @ ''/auth/login'')"
  shows "afterLookup req (Some s) res =
           Redirect ((nextUrl req)
             \<lparr>pathname := ''/'' @ currentLocale (pathname (nextUrl req)) @ ''/dashboard''\<rparr>) 302"
  using assms by (simp add: afterLookup_def)

lemma root_is_missing_locale: "pathnameIsMissingLocale ''/''"
  by (simp add: missing_unfold startsWith_def)

lemma root_not_excluded: "\<not> excluded ''/''"
  by (simp add: excluded_def str_eval)

lemma root_no_loop: "\<not> loopGuard r ''/''"
  by (simp add: loopGuard_def str_eval split: option.splits)

text \<open>Past the two early redirects, the chain ends in the cookie check; the branch for
  the root path cannot be taken, because the root path has no locale prefix.\<close>

lemma afterLookup_cookieCheck:
  assumes "\<not> pathnameIsMissingLocale (pathname (nextUrl req))"
    and "sess = None \<longrightarrow> isPublicRoute (currentLocale (pathname (nextUrl req))) (pathname (nextUrl req))"
    and "sess \<noteq> None \<longrightarrow> \<not> startsWith (pathname (nextUrl req))
           (''/'' @ currentLocale (pathname (nextUrl req)) @ ''/auth/login'')"
  shows "afterLookup req sess res =
           (case cookieCheck req sess
                   (isPublicRoute (currentLocale (pathname (nextUrl req))) (pathname (nextUrl req)))
                   (currentLocale (pathname (nextUrl req))) res of
              (res', Some r) \<Rightarrow> r
            | (res', None) \<Rightarrow> Next res')"
proof -
  have "pathname (nextUrl req) \<noteq> ''/''"
    using assms(1) root_is_missing_locale by auto
  then show ?thesis
    using assms by (cases sess) (simp_all add: afterLookup_def split: prod.splits option.splits)
qed

section \<open>Fail-open on lookup failure\<close>

text \<open>
  C2. A request that reaches the session lookup (its path is not excluded and the referer
  loop guard does not fire) and whose lookup times out, rejects, resolves to a value that
  cannot be read, or reports an error, gets the pass-through response \<open>res\<close> exactly as the
  lookup left it: the middleware redirects nowhere, adds no cookie entry and reports no
  error.
\<close>

theorem lookup_failure_fails_open:
  assumes "\<not> excluded (pathname (nextUrl req))"
    and "\<not> loopGuard (referer req) (pathname (nextUrl req))"
    and "outcome env = TimedOut \<or> outcome env = Rejected \<or> outcome env = Malformed \<or>
         (\<exists>s e. outcome env = Settled s (Some e))"
  shows "middleware env req = Next (written env)"
  using assms by (auto simp: middleware_def)

theorem lookup_failure_fails_open_witness:
  "\<not> excluded (pathname (nextUrl (shortCookieRequest ''/en/contracts''))) \<and>
   \<not> loopGuard (referer (shortCookieRequest ''/en/contracts''))
       (pathname (nextUrl (shortCookieRequest ''/en/contracts''))) \<and>
   outcome timeoutEnv = TimedOut \<and>
   middleware timeoutEnv (shortCookieRequest ''/en/contracts'') = Next Map.empty \<and>
   middleware \<lparr>outcome = Settled (Some exampleSession) (Some ''jwt expired''), written = Map.empty\<rparr>
     (shortCookieRequest ''/en/contracts'') = Next Map.empty"
proof -
  let ?r = "shortCookieRequest ''/en/contracts''"
  let ?e = "\<lparr>outcome = Settled (Some exampleSession) (Some ''jwt expired''), written = Map.empty\<rparr>"
  have h1: "\<not> excluded (pathname (nextUrl ?r))"
    by (simp add: shortCookieRequest_def exampleUrl_def excluded_def str_eval)
  have h2: "\<not> loopGuard (referer ?r) (pathname (nextUrl ?r))"
    by (simp add: shortCookieRequest_def loopGuard_def)
  have h3: "outcome timeoutEnv = TimedOut \<or> outcome timeoutEnv = Rejected \<or>
            outcome timeoutEnv = Malformed \<or> (\<exists>s e. outcome timeoutEnv = Settled s (Some e))"
    by (simp add: timeoutEnv_def)
  have h4: "outcome ?e = TimedOut \<or> outcome ?e = Rejected \<or>
            outcome ?e = Malformed \<or> (\<exists>s e. outcome ?e = Settled s (Some e))"
    by simp
  show ?thesis
    using lookup_failure_fails_open [OF h1 h2 h3] lookup_failure_fails_open [OF h1 h2 h4] h1 h2
    by (simp add: timeoutEnv_def)
qed

section \<open>Redirect to login without a session\<close>




section \<open>Redirect to the dashboard with a session\<close>

text \<open>
  C6. Take a request whose path starts with the login page \<open>/loc/auth/login\<close> of a recognised
  locale, is not excluded, and for which the referer loop guard does not fire. If the lookup
  reports a session (and no error), the middleware answers with a redirect (status 302) to
  \<open>/loc/dashboard\<close>.
\<close>

theorem session_on_login_redirects_to_dashboard:
  assumes "pathname (nextUrl req) = p"
    and "\<not> excluded p"
    and "\<not> loopGuard (referer req) p"
    and "loc \<in> set validLocales"
    and "startsWith p (''/'' @ loc @ ''/auth/login'')"
    and "outcome env = Settled (Some s) None"
  shows "middleware env req =
           Redirect ((nextUrl req)\<lparr>pathname := ''/'' @ loc @ ''/dashboard''\<rparr>) 302"
proof -
  have pre: "p = ''/'' @ loc \<or> startsWith p (''/'' @ loc @ ''/'')"
    using login_route_has_locale [OF assms(5)] by (rule disjI2)
  have loc: "currentLocale p = loc" using assms(4) pre by (rule currentLocale_of_prefix)
  have "middleware env req = afterLookup req (Some s) (written env)"
    using assms(1,2,3,6) by (intro middleware_settled) simp_all
  also have "\<dots> = Redirect ((nextUrl req)\<lparr>pathname := ''/'' @ loc @ ''/dashboard''\<rparr>) 302"
    using hasLocaleI [OF assms(4) pre] assms(1,5) loc
    by (simp add: afterLookup_session_login)
  finally show ?thesis .
qed

theorem session_on_login_redirects_to_dashboard_witness:
  "\<not> excluded ''/en/auth/login'' \<and>
   \<not> loopGuard (referer (exampleRequest ''/en/auth/login'')) ''/en/auth/login'' \<and>
   ''en'' \<in> set validLocales \<and> startsWith ''/en/auth/login'' (''/'' @ ''en'' @ ''/auth/login'') \<and>
   middleware sessionEnv (exampleRequest ''/en/auth/login'') =
     Redirect \<lparr>origin = ''https://app.example'', pathname = ''/en/dashboard'',
               searchParams = [(''tab'', ''2'')]\<rparr> 302"
proof -
  have h1: "pathname (nextUrl (exampleRequest ''/en/auth/login'')) = ''/en/auth/login''"
    by (simp add: exampleRequest_def exampleUrl_def)
  have h2: "\<not> excluded ''/en/auth/login''"
    by (simp add: excluded_def str_eval)
  have h3: "\<not> loopGuard (referer (exampleRequest ''/en/auth/login'')) ''/en/auth/login''"
    by (simp add: exampleRequest_def loopGuard_def)
  have h4: "''en'' \<in> set validLocales"
    by (simp add: validLocales_def)
  have h5: "startsWith ''/en/auth/login'' (''/'' @ ''en'' @ ''/auth/login'')"
    by (simp add: startsWith_def)
  have h6: "outcome sessionEnv = Settled (Some exampleSession) None"
    by (simp add: sessionEnv_def)
  show ?thesis
    using session_on_login_redirects_to_dashboard [OF h1 h2 h3 h4 h5 h6] h2 h3 h4 h5
    by (simp add: exampleRequest_def exampleUrl_def)
qed

section \<open>The root path\<close>

text \<open>
  C4. What the middleware does for the path \<open>/\<close> after a successful lookup: the root path has no
  locale prefix, so the locale step answers first, with a redirect to \<open>/en/\<close>, whether or not
  there is a session. The later branch that would send the root path to \<open>/<locale>/dashboard\<close>
  or \<open>/<locale>/auth/login\<close> is never reached.
\<close>

theorem root_path_gets_locale_prefix:
  assumes "pathname (nextUrl req) = ''/''"
    and "outcome env = Settled s None"
  shows "middleware env req = Redirect ((nextUrl req)\<lparr>pathname := ''/en/''\<rparr>) 307"
proof -
  have "middleware env req = afterLookup req s (written env)"
    using assms root_not_excluded root_no_loop by (intro middleware_settled) simp_all
  then show ?thesis
    using assms(1) root_is_missing_locale by (simp add: afterLookup_missing)
qed

theorem root_path_gets_locale_prefix_witness:
  "pathname (nextUrl (exampleRequest ''/'')) = ''/'' \<and>
   middleware sessionEnv (exampleRequest ''/'') =
     Redirect \<lparr>origin = ''https://app.example'', pathname = ''/en/'',
               searchParams = [(''tab'', ''2'')]\<rparr> 307 \<and>
   middleware sessionEnv (exampleRequest ''/'') \<noteq>
     Redirect ((nextUrl (exampleRequest ''/''))\<lparr>pathname := ''/en/dashboard''\<rparr>) 307 \<and>
   middleware noSessionEnv (exampleRequest ''/'') \<noteq>
     Redirect ((nextUrl (exampleRequest ''/''))\<lparr>pathname := ''/en/auth/login''\<rparr>) 307"
proof -
  have h1: "pathname (nextUrl (exampleRequest ''/'')) = ''/''"
    by (simp add: exampleRequest_def exampleUrl_def)
  have h2: "outcome sessionEnv = Settled (Some exampleSession) None"
    by (simp add: sessionEnv_def)
  have h3: "outcome noSessionEnv = Settled None None"
    by (simp add: noSessionEnv_def)
  show ?thesis
    using root_path_gets_locale_prefix [OF h1 h2] root_path_gets_locale_prefix [OF h1 h3] h1
    by (simp add: exampleRequest_def exampleUrl_def)
qed

section \<open>Locale prefixing\<close>

text \<open>Every redirect the middleware issues for a path that has a locale prefix goes to
  the login page or to the dashboard of that path's locale.\<close>

lemma afterLookup_redirect_targets:
  assumes "\<not> pathnameIsMissingLocale (pathname (nextUrl req))"
    and "afterLookup req sess res = Redirect u st"
  shows "pathname u = ''/'' @ currentLocale (pathname (nextUrl req)) @ ''/auth/login'' \<or>
         pathname u = ''/'' @ currentLocale (pathname (nextUrl req)) @ ''/dashboard''"
  using assms
  by (auto simp: afterLookup_def cookieCheck_def loginRedirect_def Let_def
      split: if_splits)

lemma middleware_redirect_targets:
  assumes "\<not> pathnameIsMissingLocale (pathname (nextUrl req))"
    and "middleware env req = Redirect u st"
  shows "pathname u = ''/'' @ currentLocale (pathname (nextUrl req)) @ ''/auth/login'' \<or>
         pathname u = ''/'' @ currentLocale (pathname (nextUrl req)) @ ''/dashboard''"
proof -
  from assms(2) obtain sess res where "afterLookup req sess res = Redirect u st"
    by (auto simp: middleware_def Let_def split: if_splits lookup.splits)
  with assms(1) show ?thesis by (rule afterLookup_redirect_targets)
qed

lemma prefixed_has_locale:
  assumes "startsWith p ''/''"
  shows "startsWith (''/en'' @ p) ''/en/''"
  using assms by (auto simp: startsWith_def prefix_def)

lemma prefixed_not_excluded:
  assumes "\<not> excluded p"
  shows "\<not> excluded (''/en'' @ p)"
proof -
  have "\<not> sublist ''.'' p" using assms by (simp add: excluded_def includesStr_def)
  then have "\<not> sublist ''.'' (''/en'' @ p)"
    by (simp add: sublist_Cons_right)
  then show ?thesis by (simp add: excluded_def str_eval)
qed

text \<open>A path that has a locale prefix is \<open>/loc\<close> followed by nothing or by \<open>/\<close> and a rest,
  and \<open>loc\<close> is then the locale the middleware computes for it.\<close>

lemma hasLocaleE:
  assumes "\<not> pathnameIsMissingLocale q"
  obtains loc rest where "loc = ''en'' \<or> loc = ''ar''"
    and "q = ''/'' @ loc \<or> q = ''/'' @ loc @ ''/'' @ rest"
    and "currentLocale q = loc"
proof -
  from assms obtain loc where v: "loc \<in> set validLocales"
    and q: "q = ''/'' @ loc \<or> startsWith q (''/'' @ loc @ ''/'')"
    unfolding missing_unfold validLocales_def by fastforce
  from q obtain rest where "q = ''/'' @ loc \<or> q = ''/'' @ loc @ ''/'' @ rest"
    by (auto simp: startsWith_def prefix_def)
  moreover have "currentLocale q = loc" using v q by (rule currentLocale_of_prefix)
  moreover have "loc = ''en'' \<or> loc = ''ar''" using v by (simp add: validLocales_def)
  ultimately show thesis using that by blast
qed

lemma has_locale_never_prefixed:
  assumes "\<not> pathnameIsMissingLocale (pathname (nextUrl req))"
  shows "\<nexists>u st. middleware env req = Redirect u st \<and>
                  pathname u = ''/en'' @ pathname (nextUrl req)"
proof
  assume "\<exists>u st. middleware env req = Redirect u st \<and> pathname u = ''/en'' @ pathname (nextUrl req)"
  then obtain u st where r: "middleware env req = Redirect u st"
    and u: "pathname u = ''/en'' @ pathname (nextUrl req)" by blast
  from assms obtain loc rest where loc: "loc = ''en'' \<or> loc = ''ar''"
    and q: "pathname (nextUrl req) = ''/'' @ loc \<or> pathname (nextUrl req) = ''/'' @ loc @ ''/'' @ rest"
    and cur: "currentLocale (pathname (nextUrl req)) = loc"
    by (rule hasLocaleE)
  from middleware_redirect_targets [OF assms r] cur
  have "pathname u = ''/'' @ loc @ ''/auth/login'' \<or> pathname u = ''/'' @ loc @ ''/dashboard''"
    by simp
  with u loc q show False by auto
qed

text \<open>
  C5, as it holds on the code. Take a request whose path is not excluded and has no
  recognised locale prefix. When the referer loop guard does not fire and the session
  lookup succeeds (with or without a session), the middleware redirects to the same URL
  with the path prefixed by \<open>/en\<close>. The prefixed path (a URL path starts with \<open>/\<close>) is not
  excluded and carries a recognised locale prefix; and for a request whose path carries a
  recognised locale prefix, whatever the lookup says, no redirect of the middleware goes to
  \<open>/en\<close> followed by that path. So the prefix is added once and not again on re-entry.
\<close>

theorem missing_locale_prefixed_once:
  assumes "pathname (nextUrl req) = p"
    and "\<not> excluded p"
    and "\<not> loopGuard (referer req) p"
    and "pathnameIsMissingLocale p"
    and "outcome env = Settled s None"
    and "startsWith p ''/''"
    and "\<not> pathnameIsMissingLocale (pathname (nextUrl req'))"
  shows "middleware env req = Redirect ((nextUrl req)\<lparr>pathname := ''/en'' @ p\<rparr>) 307 \<and>
         \<not> excluded (''/en'' @ p) \<and>
         \<not> pathnameIsMissingLocale (''/en'' @ p) \<and>
         (\<nexists>u st. middleware env' req' = Redirect u st \<and>
                  pathname u = ''/en'' @ pathname (nextUrl req'))"
proof -
  have "middleware env req = afterLookup req s (written env)"
    using assms(1,2,3,5) by (intro middleware_settled) simp_all
  then have first: "middleware env req = Redirect ((nextUrl req)\<lparr>pathname := ''/en'' @ p\<rparr>) 307"
    using assms(1,4) by (simp add: afterLookup_missing)
  have en: "''en'' \<in> set validLocales" by (simp add: validLocales_def)
  have pre: "''/en'' @ p = ''/'' @ ''en'' \<or> startsWith (''/en'' @ p) (''/'' @ ''en'' @ ''/'')"
    using prefixed_has_locale [OF assms(6)] by simp
  have has: "\<not> pathnameIsMissingLocale (''/en'' @ p)"
    using en pre by (rule hasLocaleI)
  from first prefixed_not_excluded [OF assms(2)] has has_locale_never_prefixed [OF assms(7)]
  show ?thesis by blast
qed

theorem missing_locale_prefixed_once_witness:
  "\<not> excluded ''/contracts'' \<and>
   \<not> loopGuard (referer (exampleRequest ''/contracts'')) ''/contracts'' \<and>
   pathnameIsMissingLocale ''/contracts'' \<and> startsWith ''/contracts'' ''/'' \<and>
   middleware noSessionEnv (exampleRequest ''/contracts'') =
     Redirect \<lparr>origin = ''https://app.example'', pathname = ''/en/contracts'',
               searchParams = [(''tab'', ''2'')]\<rparr> 307 \<and>
   \<not> pathnameIsMissingLocale ''/en/contracts'' \<and>
   middleware noSessionEnv (exampleRequest ''/en/contracts'') =
     Redirect \<lparr>origin = ''https://app.example'', pathname = ''/en/auth/login'',
               searchParams = [(''tab'', ''2''), (''redirect'', ''/en/contracts'')]\<rparr> 307 \<and>
   (\<nexists>u st. middleware noSessionEnv (exampleRequest ''/en/contracts'') = Redirect u st \<and>
      pathname u = ''/en/en/contracts'')"
proof -
  have h1: "pathname (nextUrl (exampleRequest ''/contracts'')) = ''/contracts''"
    by (simp add: exampleRequest_def exampleUrl_def)
  have h2: "\<not> excluded ''/contracts''"
    by (simp add: excluded_def str_eval)
  have h3: "\<not> loopGuard (referer (exampleRequest ''/contracts'')) ''/contracts''"
    by (simp add: exampleRequest_def loopGuard_def)
  have h4: "pathnameIsMissingLocale ''/contracts''"
    by (simp add: missing_unfold startsWith_def)
  have h5: "outcome noSessionEnv = Settled None None"
    by (simp add: noSessionEnv_def)
  have h6: "startsWith ''/contracts'' ''/''"
    by (simp add: startsWith_def)
  have h7: "\<not> pathnameIsMissingLocale (pathname (nextUrl (exampleRequest ''/en/contracts'')))"
    by (simp add: exampleRequest_def exampleUrl_def missing_unfold startsWith_def)
  have re: "middleware noSessionEnv (exampleRequest ''/en/contracts'') =
     Redirect \<lparr>origin = ''https://app.example'', pathname = ''/en/auth/login'',
               searchParams = [(''tab'', ''2''), (''redirect'', ''/en/contracts'')]\<rparr> 307"
    by (simp add: middleware_def afterLookup_def noSessionEnv_def exampleRequest_def
        exampleUrl_def excluded_def loopGuard_def missing_unfold currentLocale_def
        pathLocale_def validLocales_def isPublicRoute_def publicRoutes_def loginRedirect_def
        str_eval)
  show ?thesis
    using missing_locale_prefixed_once [OF h1 h2 h3 h4 h5 h6 h7, of noSessionEnv] h2 h3 h4 h6 re
    by (simp add: exampleRequest_def exampleUrl_def)
qed

text \<open>
  Without the condition on the lookup the statement does not hold: for a non-excluded path
  without a locale prefix whose lookup times out, the request is passed through and not
  redirected.
\<close>

theorem missing_locale_counterexample:
  "\<not> excluded ''/contracts'' \<and> pathnameIsMissingLocale ''/contracts'' \<and>
   middleware timeoutEnv (exampleRequest ''/contracts'') = Next Map.empty \<and>
   middleware timeoutEnv (exampleRequest ''/contracts'') \<noteq>
     Redirect ((nextUrl (exampleRequest ''/contracts''))\<lparr>pathname := ''/en/contracts''\<rparr>) 307"
  by (simp add: middleware_def timeoutEnv_def exampleRequest_def exampleUrl_def excluded_def
      loopGuard_def missing_unfold str_eval)

section \<open>The cookie check\<close>

lemma isTruncated_absent: "\<not> isTruncated None"
  by (simp add: isTruncated_def)

lemma isTruncated_empty: "\<not> isTruncated (Some [])"
  by (simp add: isTruncated_def)

lemma isTruncated_length5: "c = Some v \<Longrightarrow> length v = 5 \<Longrightarrow> isTruncated c"
  by (cases v) (simp_all add: isTruncated_def)

lemma cookieCheck_truncated_no_session:
  assumes "isTruncated (cookies req ''sb-auth-token.0'') \<or>
           isTruncated (cookies req ''sb-auth-token.1'')"
  shows "cookieCheck req None isPublic loc res =
           (res(''sb-auth-token.0'' \<mapsto> clearedCookie ''sb-auth-token.0'',
                ''sb-auth-token.1'' \<mapsto> clearedCookie ''sb-auth-token.1''),
            if isPublic then None else Some (loginRedirect req loc))"
  using assms by (simp add: cookieCheck_def)

lemma cookieCheck_session: "cookieCheck req (Some s) isPublic loc res = (res, None)"
  by (simp add: cookieCheck_def)

lemma short_cookie_truncated:
  assumes "(\<exists>v. cookies req ''sb-auth-token.0'' = Some v \<and> length v = 5) \<or>
           (\<exists>v. cookies req ''sb-auth-token.1'' = Some v \<and> length v = 5)"
  shows "isTruncated (cookies req ''sb-auth-token.0'') \<or>
         isTruncated (cookies req ''sb-auth-token.1'')"
  using assms isTruncated_length5 by blast

text \<open>What the whole middleware answers when a named cookie is truncated. Without a session the
  cookie check is only reached on a public route, where it clears the two cookies on the
  pass-through response. On a protected path the earlier step has already answered, with a
  fresh redirect (or, on a path that contains \<open>/auth/login\<close>, with \<open>res\<close> as it was), so the
  redirect of the cookie check is never the one returned. With a session, \<open>res\<close> is returned
  as the lookup left it.\<close>

lemma middleware_short_cookie_protected_path:
  assumes "\<not> excluded (pathname (nextUrl req))"
    and "\<not> loopGuard (referer req) (pathname (nextUrl req))"
    and "\<not> pathnameIsMissingLocale (pathname (nextUrl req))"
    and "\<not> isPublicRoute (currentLocale (pathname (nextUrl req))) (pathname (nextUrl req))"
    and "outcome env = Settled None None"
  shows "middleware env req =
           (if includesStr (pathname (nextUrl req)) ''/auth/login'' then Next (written env)
            else loginRedirect req (currentLocale (pathname (nextUrl req))))"
proof -
  have "middleware env req = afterLookup req None (written env)"
    using assms(1,2,5) by (rule middleware_settled)
  then show ?thesis
    using assms(3,4) by (simp add: afterLookup_no_session_protected)
qed

lemma middleware_short_cookie_public_route:
  assumes "\<not> excluded (pathname (nextUrl req))"
    and "\<not> loopGuard (referer req) (pathname (nextUrl req))"
    and "\<not> pathnameIsMissingLocale (pathname (nextUrl req))"
    and "isPublicRoute (currentLocale (pathname (nextUrl req))) (pathname (nextUrl req))"
    and "outcome env = Settled None None"
    and "(\<exists>v. cookies req ''sb-auth-token.0'' = Some v \<and> length v = 5) \<or>
         (\<exists>v. cookies req ''sb-auth-token.1'' = Some v \<and> length v = 5)"
  shows "middleware env req =
           Next ((written env)
             (''sb-auth-token.0'' \<mapsto> clearedCookie ''sb-auth-token.0'',
              ''sb-auth-token.1'' \<mapsto> clearedCookie ''sb-auth-token.1''))"
proof -
  have "middleware env req = afterLookup req None (written env)"
    using assms(1,2,5) by (rule middleware_settled)
  then show ?thesis
    using assms(3,4) cookieCheck_truncated_no_session [OF short_cookie_truncated [OF assms(6)]]
    by (simp add: afterLookup_cookieCheck)
qed

lemma middleware_short_cookie_session:
  assumes "\<not> excluded (pathname (nextUrl req))"
    and "\<not> loopGuard (referer req) (pathname (nextUrl req))"
    and "\<not> pathnameIsMissingLocale (pathname (nextUrl req))"
    and "\<not> startsWith (pathname (nextUrl req))
           (''/'' @ currentLocale (pathname (nextUrl req)) @ ''/auth/login'')"
    and "outcome env = Settled (Some s) None"
  shows "middleware env req = Next (written env)"
proof -
  have "middleware env req = afterLookup req (Some s) (written env)"
    using assms(1,2,5) by (rule middleware_settled)
  then show ?thesis
    using assms(3,4) by (simp add: afterLookup_cookieCheck cookieCheck_session)
qed

text \<open>
  C3. What the middleware answers when one of the two named cookies has a value of length 5,
  for a request that gets past the exclusion, the loop guard and the locale step. Without a
  session on a protected path (one that does not contain \<open>/auth/login\<close>) the answer is the
  fresh redirect to the login page, with \<open>redirect\<close> set to the path, that the earlier step
  issues: it carries no cookie entry, so the two cookies are not cleared, and the branch of
  the cookie check that would clear them and then redirect is not reached. Without a session
  on a public route both named cookies are cleared (empty value, expiry at the epoch, path
  \<open>/\<close>) on the pass-through response. With a session (the path not being the login page) the
  pass-through response is \<open>res\<close> as the lookup left it.
\<close>

theorem short_cookie_through_middleware:
  assumes "pathname (nextUrl req) = p"
    and "\<not> excluded p"
    and "\<not> loopGuard (referer req) p"
    and "\<not> pathnameIsMissingLocale p"
    and "(\<exists>v. cookies req ''sb-auth-token.0'' = Some v \<and> length v = 5) \<or>
         (\<exists>v. cookies req ''sb-auth-token.1'' = Some v \<and> length v = 5)"
  shows "(outcome env = Settled None None \<and> \<not> isPublicRoute (currentLocale p) p \<and>
          \<not> includesStr p ''/auth/login'' \<longrightarrow>
            middleware env req =
              Redirect ((nextUrl req)
                \<lparr>pathname := ''/'' @ currentLocale p @ ''/auth/login'',
                 searchParams := searchParams_set ''redirect'' p (searchParams (nextUrl req))\<rparr>)
                307) \<and>
         (outcome env = Settled None None \<and> isPublicRoute (currentLocale p) p \<longrightarrow>
            middleware env req =
              Next ((written env)
                (''sb-auth-token.0'' \<mapsto>
                   \<lparr>c_name = ''sb-auth-token.0'', c_value = [], c_expires = Some 0,
                    c_path = Some ''/''\<rparr>,
                 ''sb-auth-token.1'' \<mapsto>
                   \<lparr>c_name = ''sb-auth-token.1'', c_value = [], c_expires = Some 0,
                    c_path = Some ''/''\<rparr>))) \<and>
         ((\<exists>s. outcome env = Settled (Some s) None) \<and>
          \<not> startsWith p (''/'' @ currentLocale p @ ''/auth/login'') \<longrightarrow>
            middleware env req = Next (written env))"
proof -
  note pre = assms(2,3,4) [folded assms(1)]
  have a: "middleware env req =
             Redirect ((nextUrl req)
                \<lparr>pathname := ''/'' @ currentLocale p @ ''/auth/login'',
                 searchParams := searchParams_set ''redirect'' p (searchParams (nextUrl req))\<rparr>)
                307"
    if "outcome env = Settled None None" "\<not> isPublicRoute (currentLocale p) p"
       "\<not> includesStr p ''/auth/login''"
    using middleware_short_cookie_protected_path [OF pre, of env] that assms(1)
    by (simp add: loginRedirect_def)
  have b: "middleware env req =
             Next ((written env)
                (''sb-auth-token.0'' \<mapsto> clearedCookie ''sb-auth-token.0'',
                 ''sb-auth-token.1'' \<mapsto> clearedCookie ''sb-auth-token.1''))"
    if "outcome env = Settled None None" "isPublicRoute (currentLocale p) p"
    using middleware_short_cookie_public_route [OF pre, of env] that assms(1,5) by simp
  have c: "middleware env req = Next (written env)"
    if "outcome env = Settled (Some s) None"
       "\<not> startsWith p (''/'' @ currentLocale p @ ''/auth/login'')" for s
    using middleware_short_cookie_session [OF pre, of env s] that assms(1) by simp
  from a b c show ?thesis by (auto simp: clearedCookie_def)
qed

theorem short_cookie_through_middleware_witness:
  "cookies (shortCookieRequest ''/en/contracts'') ''sb-auth-token.0'' = Some ''abcde'' \<and>
   length ''abcde'' = 5 \<and>
   \<not> excluded ''/en/contracts'' \<and> \<not> pathnameIsMissingLocale ''/en/contracts'' \<and>
   \<not> isPublicRoute (currentLocale ''/en/contracts'') ''/en/contracts'' \<and>
   \<not> includesStr ''/en/contracts'' ''/auth/login'' \<and>
   middleware noSessionEnv (shortCookieRequest ''/en/contracts'') =
     Redirect \<lparr>origin = ''https://app.example'', pathname = ''/en/auth/login'',
               searchParams = [(''tab'', ''2''), (''redirect'', ''/en/contracts'')]\<rparr> 307 \<and>
   \<not> excluded ''/en/demo'' \<and> \<not> pathnameIsMissingLocale ''/en/demo'' \<and>
   isPublicRoute (currentLocale ''/en/demo'') ''/en/demo'' \<and>
   middleware noSessionEnv (shortCookieRequest ''/en/demo'') =
     Next [''sb-auth-token.0'' \<mapsto>
            \<lparr>c_name = ''sb-auth-token.0'', c_value = [], c_expires = Some 0,
             c_path = Some ''/''\<rparr>,
           ''sb-auth-token.1'' \<mapsto>
            \<lparr>c_name = ''sb-auth-token.1'', c_value = [], c_expires = Some 0,
             c_path = Some ''/''\<rparr>] \<and>
   \<not> startsWith ''/en/contracts'' (''/'' @ currentLocale ''/en/contracts'' @ ''/auth/login'') \<and>
   middleware sessionEnv (shortCookieRequest ''/en/contracts'') = Next Map.empty"
proof -
  have p: "pathname (nextUrl (shortCookieRequest q)) = q" for q
    by (simp add: shortCookieRequest_def exampleUrl_def)
  have l: "\<not> loopGuard (referer (shortCookieRequest q)) q" for q
    by (simp add: shortCookieRequest_def loopGuard_def)
  have c: "cookies (shortCookieRequest q) ''sb-auth-token.0'' = Some ''abcde''" for q
    by (simp add: shortCookieRequest_def)
  have h: "(\<exists>v. cookies (shortCookieRequest q) ''sb-auth-token.0'' = Some v \<and> length v = 5) \<or>
           (\<exists>v. cookies (shortCookieRequest q) ''sb-auth-token.1'' = Some v \<and> length v = 5)" for q
    using c [of q] by simp
  have e1: "\<not> excluded ''/en/contracts''" and e2: "\<not> excluded ''/en/demo''"
    by (simp_all add: excluded_def str_eval)
  have m1: "\<not> pathnameIsMissingLocale ''/en/contracts''"
    and m2: "\<not> pathnameIsMissingLocale ''/en/demo''"
    by (simp_all add: missing_unfold startsWith_def)
  have l1: "currentLocale ''/en/contracts'' = ''en''" and l2: "currentLocale ''/en/demo'' = ''en''"
    by (simp_all add: currentLocale_def pathLocale_def validLocales_def)
  have r1: "\<not> isPublicRoute (currentLocale ''/en/contracts'') ''/en/contracts''"
    unfolding l1 by (simp add: isPublicRoute_def publicRoutes_def str_eval)
  have r2: "isPublicRoute (currentLocale ''/en/demo'') ''/en/demo''"
    unfolding l2 by (simp add: isPublicRoute_def publicRoutes_def str_eval)
  have i1: "\<not> includesStr ''/en/contracts'' ''/auth/login''"
    by (simp add: str_eval)
  have s1: "\<not> startsWith ''/en/contracts'' (''/'' @ currentLocale ''/en/contracts'' @ ''/auth/login'')"
    unfolding l1 by (simp add: startsWith_def)
  have o1: "outcome noSessionEnv = Settled None None"
    by (simp add: noSessionEnv_def)
  have o2: "\<exists>s. outcome sessionEnv = Settled (Some s) None"
    by (simp add: sessionEnv_def)
  note t1 = short_cookie_through_middleware [OF p e1 l m1 h, of noSessionEnv]
  note t2 = short_cookie_through_middleware [OF p e2 l m2 h, of noSessionEnv]
  note t3 = short_cookie_through_middleware [OF p e1 l m1 h, of sessionEnv]
  from t1 o1 r1 i1 have a: "middleware noSessionEnv (shortCookieRequest ''/en/contracts'') =
     Redirect \<lparr>origin = ''https://app.example'', pathname = ''/en/auth/login'',
               searchParams = [(''tab'', ''2''), (''redirect'', ''/en/contracts'')]\<rparr> 307"
    by (simp add: l1 shortCookieRequest_def exampleUrl_def)
  from t2 o1 r2 have b: "middleware noSessionEnv (shortCookieRequest ''/en/demo'') =
     Next [''sb-auth-token.0'' \<mapsto>
            \<lparr>c_name = ''sb-auth-token.0'', c_value = [], c_expires = Some 0,
             c_path = Some ''/''\<rparr>,
           ''sb-auth-token.1'' \<mapsto>
            \<lparr>c_name = ''sb-auth-token.1'', c_value = [], c_expires = Some 0,
             c_path = Some ''/''\<rparr>]"
    by (simp add: noSessionEnv_def)
  from t3 o2 s1 have d: "middleware sessionEnv (shortCookieRequest ''/en/contracts'') = Next Map.empty"
    by (simp add: sessionEnv_def)
  from a b d c e1 e2 m1 m2 r1 r2 i1 s1 show ?thesis by simp
qed

text \<open>
  C9. A named cookie that is absent or has an empty value does not count as truncated. So
  when each of the two named cookies is absent or empty, the cookie check changes nothing on
  \<open>res\<close> and returns no redirect, for every session state and route; and whenever the middleware
  then passes a request through, the response carries no cookie entry beyond what \<open>res\<close>
  held after the lookup.
\<close>

theorem absent_or_empty_cookies_never_cleared:
  assumes "cookies req ''sb-auth-token.0'' = None \<or> cookies req ''sb-auth-token.0'' = Some ''''"
    and "cookies req ''sb-auth-token.1'' = None \<or> cookies req ''sb-auth-token.1'' = Some ''''"
  shows "\<not> isTruncated (cookies req ''sb-auth-token.0'') \<and>
         \<not> isTruncated (cookies req ''sb-auth-token.1'') \<and>
         cookieCheck req sess isPublic loc res = (res, None) \<and>
         (\<forall>cs. middleware env req = Next cs \<longrightarrow> cs = Map.empty \<or> cs = written env)"
proof -
  have t0: "\<not> isTruncated (cookies req ''sb-auth-token.0'')"
    using assms(1) isTruncated_absent isTruncated_empty by auto
  have t1: "\<not> isTruncated (cookies req ''sb-auth-token.1'')"
    using assms(2) isTruncated_absent isTruncated_empty by auto
  have cc: "cookieCheck req sess' isPublic' loc' res' = (res', None)" for sess' isPublic' loc' res'
    using t0 t1 by (simp add: cookieCheck_def)
  have "\<forall>cs. afterLookup req sess' (written env) = Next cs \<longrightarrow> cs = written env" for sess'
    by (auto simp: afterLookup_def cc loginRedirect_def Let_def split: if_splits)
  then have "\<forall>cs. middleware env req = Next cs \<longrightarrow> cs = Map.empty \<or> cs = written env"
    by (auto simp: middleware_def Let_def split: if_splits lookup.splits)
  with t0 t1 cc show ?thesis by blast
qed

theorem absent_or_empty_cookies_never_cleared_witness:
  "cookies (emptyCookieRequest ''/en/demo'') ''sb-auth-token.0'' = None \<and>
   cookies (emptyCookieRequest ''/en/demo'') ''sb-auth-token.1'' = Some '''' \<and>
   length ('''' :: string) < 10 \<and>
   \<not> isTruncated (cookies (emptyCookieRequest ''/en/demo'') ''sb-auth-token.1'') \<and>
   cookieCheck (emptyCookieRequest ''/en/demo'') None True ''en'' Map.empty = (Map.empty, None) \<and>
   middleware noSessionEnv (emptyCookieRequest ''/en/demo'') = Next Map.empty"
proof -
  have h0: "cookies (emptyCookieRequest ''/en/demo'') ''sb-auth-token.0'' = None \<or>
            cookies (emptyCookieRequest ''/en/demo'') ''sb-auth-token.0'' = Some ''''"
    by (simp add: emptyCookieRequest_def)
  have h1: "cookies (emptyCookieRequest ''/en/demo'') ''sb-auth-token.1'' = None \<or>
            cookies (emptyCookieRequest ''/en/demo'') ''sb-auth-token.1'' = Some ''''"
    by (simp add: emptyCookieRequest_def)
  have mw: "middleware noSessionEnv (emptyCookieRequest ''/en/demo'') = Next Map.empty"
    by (simp add: middleware_def afterLookup_def cookieCheck_def isTruncated_def
        noSessionEnv_def emptyCookieRequest_def exampleUrl_def excluded_def loopGuard_def
        missing_unfold currentLocale_def pathLocale_def validLocales_def isPublicRoute_def
        publicRoutes_def str_eval)
  show ?thesis
    using absent_or_empty_cookies_never_cleared [OF h0 h1, of None True "''en''" Map.empty noSessionEnv]
      mw
    by (simp add: emptyCookieRequest_def)
qed

section \<open>The client auth state cache: broadcasts\<close>

lemma updateState_authState [simp]: "authState (updateState f svc) = f (authState svc)"
  by (simp add: updateState_def notifyListeners_def)

lemma updateState_listeners [simp]: "listeners (updateState f svc) = listeners svc"
  by (simp add: updateState_def notifyListeners_def)

lemma updateState_client [simp]: "supabaseClient (updateState f svc) = supabaseClient svc"
  by (simp add: updateState_def notifyListeners_def)

lemma updateState_delivered:
  "delivered (updateState f svc) =
     delivered svc @ map (\<lambda>l. (l, f (authState svc))) (listeners svc)"
  by (simp add: updateState_def notifyListeners_def)

text \<open>After \<open>updateState\<close>, the last thing the service has done is to hand its present
  state to every listener.\<close>

lemma updateState_broadcast:
  "\<exists>tr. delivered (updateState f svc) =
     tr @ map (\<lambda>l. (l, authState (updateState f svc))) (listeners (updateState f svc))"
  by (simp add: updateState_delivered)

lemma refreshFlow_nothing:
  assumes "refreshSession env = RefreshThrows \<or> (\<exists>s e. refreshSession env = RefreshData s (Some e)) \<or>
           refreshSession env = RefreshData None None"
    and "checkSession env = CheckThrows \<or>
         (\<exists>d. checkSession env = CheckData d \<and> \<not> (cs_success d \<and> cs_hasSession d \<and> cs_user d \<noteq> None))"
  shows "refreshFlow env svc = updateState clearSession svc"
  using assms
  by (auto simp: refreshFlow_def split: refreshSession_outcome.splits checkSession_outcome.splits
      option.splits)

section \<open>Subscribing\<close>

text \<open>
  C8. \<open>subscribe\<close> on a fresh cache registers the callback, calls it exactly once, at once,
  with the current state, which on a fresh cache has \<open>loading\<close> true and \<open>mounted\<close> false and
  no user or session, and leaves the cached state as it was. The function it returns is
  \<open>unsubscribe\<close> for that callback: applied to any later state of the service it removes the
  callback from the listener set and changes nothing else.
\<close>

theorem subscribe_on_fresh_cache:
  "fst (subscribe cb newAuthService) =
     \<lparr>supabaseClient = False, authState = initialAuthState, listeners = [cb],
      delivered = [(cb, initialAuthState)]\<rparr> \<and>
   loading initialAuthState \<and> \<not> mounted initialAuthState \<and>
   user initialAuthState = None \<and> session initialAuthState = None \<and>
   set (listeners (snd (subscribe cb newAuthService) svc)) = set (listeners svc) - {cb} \<and>
   authState (snd (subscribe cb newAuthService) svc) = authState svc \<and>
   delivered (snd (subscribe cb newAuthService) svc) = delivered svc \<and>
   listeners (snd (subscribe cb newAuthService) (fst (subscribe cb newAuthService))) = []"
  by (simp add: subscribe_def unsubscribe_def newAuthService_def initialAuthState_def)

theorem subscribe_on_fresh_cache_witness:
  "delivered (fst (subscribe 7 newAuthService)) =
     [(7, \<lparr>user = None, session = None, loading = True, mounted = False, profile = None,
           roles = [], profileNotFound = False\<rparr>)] \<and>
   listeners (fst (subscribe 7 newAuthService)) = [7] \<and>
   listeners (snd (subscribe 7 newAuthService) (fst (subscribe 7 newAuthService))) = []"
proof -
  note fresh = subscribe_on_fresh_cache [of 7 newAuthService]
  from fresh have "fst (subscribe 7 newAuthService) =
     \<lparr>supabaseClient = False, authState = initialAuthState, listeners = [7],
      delivered = [(7, initialAuthState)]\<rparr>" by (rule conjunct1)
  moreover from fresh
  have "listeners (snd (subscribe 7 newAuthService) (fst (subscribe 7 newAuthService))) = []"
    by blast
  ultimately show ?thesis by (simp add: initialAuthState_def)
qed

section \<open>Signing out\<close>

text \<open>
  C10. When the logout request throws, or the endpoint answers with a status that is not ok
  or with \<open>success\<close> false, \<open>signOut\<close> returns \<open>success = False\<close> with an error text, and the
  service is exactly as before: no state update, no call to any listener. In the remaining
  case (status ok and \<open>success\<close> true) it returns \<open>success = True\<close>, sets \<open>user\<close>, \<open>session\<close> and
  \<open>profile\<close> to null and \<open>roles\<close> to the empty list, keeps the other fields, and hands the
  new state to every listener.
\<close>

theorem signOut_atomic_on_failure:
  "((logout env = LogoutThrows \<or>
     (\<exists>ok d. logout env = LogoutResponse ok d \<and> (\<not> ok \<or> \<not> lo_success d))) \<longrightarrow>
      (\<exists>e. signOut env svc = (\<lparr>success = False, error = Some e\<rparr>, svc))) \<and>
   ((\<exists>d. logout env = LogoutResponse True d \<and> lo_success d) \<longrightarrow>
      fst (signOut env svc) = \<lparr>success = True, error = None\<rparr> \<and>
      authState (snd (signOut env svc)) =
        (authState svc)\<lparr>user := None, session := None, profile := None, roles := []\<rparr> \<and>
      listeners (snd (signOut env svc)) = listeners svc \<and>
      delivered (snd (signOut env svc)) =
        delivered svc @ map (\<lambda>l. (l, authState (snd (signOut env svc)))) (listeners svc)) \<and>
   (snd (signOut env svc) \<noteq> svc \<longrightarrow> (\<exists>d. logout env = LogoutResponse True d \<and> lo_success d))"
  by (cases "logout env") (auto simp: signOut_def updateState_delivered)

theorem signOut_atomic_on_failure_witness:
  "logout logoutFailsEnv = LogoutResponse False \<lparr>lo_success = False, lo_error = Some ''boom''\<rparr> \<and>
   signOut logoutFailsEnv signedInService =
     (\<lparr>success = False, error = Some ''boom''\<rparr>, signedInService) \<and>
   session (authState signedInService) = Some exampleSession \<and>
   signOut unreachableEnv signedInService =
     (\<lparr>success = False, error = Some ''Internal error during sign out''\<rparr>, signedInService) \<and>
   fst (signOut logoutOkEnv signedInService) = \<lparr>success = True, error = None\<rparr> \<and>
   session (authState (snd (signOut logoutOkEnv signedInService))) = None \<and>
   user (authState (snd (signOut logoutOkEnv signedInService))) = None \<and>
   last (delivered (snd (signOut logoutOkEnv signedInService))) =
     (7, \<lparr>user = None, session = None, loading = True, mounted = False, profile = None,
          roles = [], profileNotFound = False\<rparr>)"
proof -
  have s: "signedInService =
      \<lparr>supabaseClient = True,
       authState = initialAuthState\<lparr>user := Some exampleUser, session := Some exampleSession\<rparr>,
       listeners = [7],
       delivered = [(7, initialAuthState),
         (7, initialAuthState\<lparr>user := Some exampleUser, session := Some exampleSession\<rparr>)]\<rparr>"
    by (simp add: signedInService_def signIn_def signInOkEnv_def subscribe_def newAuthService_def
        ensureClient_def updateState_def notifyListeners_def)
  have f1: "logout logoutFailsEnv = LogoutResponse False \<lparr>lo_success = False, lo_error = Some ''boom''\<rparr>"
    by (simp add: logoutFailsEnv_def)
  have f2: "logout unreachableEnv = LogoutThrows"
    by (simp add: unreachableEnv_def)
  have f3: "logout logoutOkEnv = LogoutResponse True \<lparr>lo_success = True, lo_error = None\<rparr>"
    by (simp add: logoutOkEnv_def)
  have e1: "signOut logoutFailsEnv signedInService =
     (\<lparr>success = False, error = Some ''boom''\<rparr>, signedInService)"
    by (simp add: signOut_def f1)
  have e2: "signOut unreachableEnv signedInService =
     (\<lparr>success = False, error = Some ''Internal error during sign out''\<rparr>, signedInService)"
    by (simp add: signOut_def f2)
  show ?thesis
    using signOut_atomic_on_failure [of logoutFailsEnv signedInService]
      signOut_atomic_on_failure [of logoutOkEnv signedInService] f1 f3 e1 e2
    by (simp add: s initialAuthState_def)
qed

section \<open>Initialisation without a reachable session\<close>

lemma ensureClient_authState [simp]: "authState (ensureClient env svc) = authState svc"
  by (simp add: ensureClient_def)

lemma initializeAuth_no_client:
  assumes "\<not> supabaseClient (ensureClient env svc)"
  shows "initializeAuth env svc =
           (updateState (\<lambda>a. a\<lparr>loading := False, mounted := True\<rparr>) (ensureClient env svc), None)"
  using assms by (simp add: initializeAuth_def)

lemma initializeAuth_throws:
  assumes "supabaseClient (ensureClient env svc)" and "getSession env = GetSessionThrows"
  shows "initializeAuth env svc =
           (updateState (\<lambda>a. a\<lparr>profile := None, roles := [], loading := False\<rparr>)
              (ensureClient env svc), None)"
  using assms by (simp add: initializeAuth_def)

lemma initializeAuth_no_current_session:
  assumes "supabaseClient (ensureClient env svc)" and "getSession env = GetSessionData None"
  shows "initializeAuth env svc =
           (updateState (\<lambda>a. a\<lparr>profile := None, roles := []\<rparr>)
              (refreshFlow env
                 (updateState (\<lambda>a. a\<lparr>session := None, user := None, loading := False,
                                        mounted := True\<rparr>) (ensureClient env svc))), None)"
  using assms by (simp add: initializeAuth_def)

text \<open>When \<open>getSession\<close> resolves without a session and neither the refresh nor the
  check-session endpoint yields one, the state when \<open>initializeAuth\<close> settles has \<open>session\<close>,
  \<open>user\<close> and \<open>profile\<close> null and \<open>roles\<close> empty, whatever the cache held before. When
  \<open>getSession\<close> throws this needs a cache without user and session, and without a client a
  cache without any of the four. In each case that state is the one handed to every listener
  last, and no background load is started.\<close>

lemma initializeAuth_without_session:
  assumes "getSession env = GetSessionThrows \<or> getSession env = GetSessionData None"
    and "refreshSession env = RefreshThrows \<or> (\<exists>s e. refreshSession env = RefreshData s (Some e)) \<or>
         refreshSession env = RefreshData None None"
    and "checkSession env = CheckThrows \<or>
         (\<exists>d. checkSession env = CheckData d \<and>
              \<not> (cs_success d \<and> cs_hasSession d \<and> cs_user d \<noteq> None))"
    and "(supabaseClient (ensureClient env svc) \<and>
          (getSession env = GetSessionData None \<or>
           user (authState svc) = None \<and> session (authState svc) = None)) \<or>
         (user (authState svc) = None \<and> session (authState svc) = None \<and>
          profile (authState svc) = None \<and> roles (authState svc) = [])"
  shows "session (authState (fst (initializeAuth env svc))) = None \<and>
         user (authState (fst (initializeAuth env svc))) = None \<and>
         profile (authState (fst (initializeAuth env svc))) = None \<and>
         roles (authState (fst (initializeAuth env svc))) = [] \<and>
         snd (initializeAuth env svc) = None \<and>
         (\<exists>tr. delivered (fst (initializeAuth env svc)) =
            tr @ map (\<lambda>l. (l, authState (fst (initializeAuth env svc))))
                   (listeners (fst (initializeAuth env svc))))"
proof -
  let ?r = "initializeAuth env svc"
  have shape: "\<exists>f svc'. ?r = (updateState f svc', None)"
    by (simp add: initializeAuth_def Let_def split: getSession_outcome.splits)
       (use assms(1) in auto)
  then obtain f svc' where r: "?r = (updateState f svc', None)" by blast
  have last: "\<exists>tr. delivered (fst ?r) = tr @ map (\<lambda>l. (l, authState (fst ?r))) (listeners (fst ?r))"
    unfolding r fst_conv by (rule updateState_broadcast)
  have fields: "session (authState (fst ?r)) = None \<and> user (authState (fst ?r)) = None \<and>
                profile (authState (fst ?r)) = None \<and> roles (authState (fst ?r)) = []"
  proof (cases "supabaseClient (ensureClient env svc)")
    case False
    with assms(4) show ?thesis
      unfolding initializeAuth_no_client [OF False] by auto
  next
    case True
    from assms(1) show ?thesis
    proof
      assume thr: "getSession env = GetSessionThrows"
      with assms(4) show ?thesis
        unfolding initializeAuth_throws [OF True thr] by auto
    next
      assume none: "getSession env = GetSessionData None"
      show ?thesis
        unfolding initializeAuth_no_current_session [OF True none]
          refreshFlow_nothing [OF assms(2,3)]
        by (simp add: clearSession_def)
    qed
  qed
  from fields last r show ?thesis by simp
qed

text \<open>
  C7. What \<open>initializeAuth\<close> does when a client is available and \<open>getSession\<close> throws, so that
  no lookup yields a session: the outer handler sets \<open>profile\<close> to null, \<open>roles\<close> to the empty
  list and \<open>loading\<close> to false, and leaves \<open>session\<close>, \<open>user\<close> and \<open>mounted\<close> as the cache held
  them; that state is handed to every listener and no background load is started. So on a
  cache that holds a session and a user (after a successful sign-in) the final state still
  carries both, where the handlers for a failed refresh and a failed check-session call in
  the same function clear \<open>session\<close>, \<open>user\<close>, \<open>profile\<close> and \<open>roles\<close>.
\<close>

theorem initializeAuth_throw_keeps_cached_session:
  assumes "supabaseClient (ensureClient env svc)"
    and "getSession env = GetSessionThrows"
  shows "session (authState (fst (initializeAuth env svc))) = session (authState svc) \<and>
         user (authState (fst (initializeAuth env svc))) = user (authState svc) \<and>
         mounted (authState (fst (initializeAuth env svc))) = mounted (authState svc) \<and>
         profile (authState (fst (initializeAuth env svc))) = None \<and>
         roles (authState (fst (initializeAuth env svc))) = [] \<and>
         \<not> loading (authState (fst (initializeAuth env svc))) \<and>
         snd (initializeAuth env svc) = None \<and>
         delivered (fst (initializeAuth env svc)) =
           delivered svc @
           map (\<lambda>l. (l, authState (fst (initializeAuth env svc)))) (listeners svc)"
  unfolding initializeAuth_throws [OF assms]
  by (simp add: updateState_delivered ensureClient_def)

theorem initializeAuth_throw_keeps_cached_session_witness:
  "fst (signIn signInOkEnv (fst (subscribe 7 newAuthService))) =
     \<lparr>success = True, error = None\<rparr> \<and>
   supabaseClient (ensureClient unreachableEnv signedInService) \<and>
   getSession unreachableEnv = GetSessionThrows \<and>
   refreshSession unreachableEnv = RefreshThrows \<and>
   checkSession unreachableEnv = CheckThrows \<and>
   session (authState (fst (initializeAuth unreachableEnv signedInService))) =
     Some exampleSession \<and>
   user (authState (fst (initializeAuth unreachableEnv signedInService))) = Some exampleUser \<and>
   last (delivered (fst (initializeAuth unreachableEnv signedInService))) =
     (7, \<lparr>user = Some exampleUser, session = Some exampleSession, loading = False,
          mounted = False, profile = None, roles = [], profileNotFound = False\<rparr>)"
proof -
  have s: "signedInService =
      \<lparr>supabaseClient = True,
       authState = initialAuthState\<lparr>user := Some exampleUser, session := Some exampleSession\<rparr>,
       listeners = [7],
       delivered = [(7, initialAuthState),
         (7, initialAuthState\<lparr>user := Some exampleUser, session := Some exampleSession\<rparr>)]\<rparr>"
    by (simp add: signedInService_def signIn_def signInOkEnv_def subscribe_def newAuthService_def
        ensureClient_def updateState_def notifyListeners_def)
  have ok: "fst (signIn signInOkEnv (fst (subscribe 7 newAuthService))) =
              \<lparr>success = True, error = None\<rparr>"
    by (simp add: signIn_def signInOkEnv_def subscribe_def newAuthService_def ensureClient_def)
  have cl: "supabaseClient (ensureClient unreachableEnv signedInService)"
    by (simp add: s ensureClient_def)
  have g: "getSession unreachableEnv = GetSessionThrows"
    and r: "refreshSession unreachableEnv = RefreshThrows"
    and c: "checkSession unreachableEnv = CheckThrows"
    by (simp_all add: unreachableEnv_def)
  note t = initializeAuth_throw_keeps_cached_session [OF cl g]
  from t have se: "session (authState (fst (initializeAuth unreachableEnv signedInService))) =
                     Some exampleSession"
    by (simp add: s)
  from t have us: "user (authState (fst (initializeAuth unreachableEnv signedInService))) =
                     Some exampleUser"
    by (simp add: s)
  from t have st: "authState (fst (initializeAuth unreachableEnv signedInService)) =
      \<lparr>user = Some exampleUser, session = Some exampleSession, loading = False,
       mounted = False, profile = None, roles = [], profileNotFound = False\<rparr>"
    unfolding initializeAuth_throws [OF cl g]
    by (simp add: s initialAuthState_def)
  from t have "delivered (fst (initializeAuth unreachableEnv signedInService)) =
      delivered signedInService @
      [(7, authState (fst (initializeAuth unreachableEnv signedInService)))]"
    by (simp add: s)
  then have la: "last (delivered (fst (initializeAuth unreachableEnv signedInService))) =
     (7, \<lparr>user = Some exampleUser, session = Some exampleSession, loading = False,
          mounted = False, profile = None, roles = [], profileNotFound = False\<rparr>)"
    by (simp add: st)
  from ok cl g r c se us la show ?thesis by simp
qed

end
